theory Spec2Isabelle
  imports Main "HOL-Library.Sublist" "HOL-Library.Multiset"
begin

section \<open>Data model\<close>

text \<open>
  The service of \<^verbatim>\<open>main.py\<close> keeps three tables (\<^verbatim>\<open>models.py\<close>): users,
  advertisements and tokens. A row is a record; a table is the list of its rows in
  insertion order, which need not be the order in which the database returns them to a
  query. The primary key \<^verbatim>\<open>id\<close> of every table is written with the
  table's initial, since \<open>id\<close> is the identity function of HOL. The columns
  \<^verbatim>\<open>user_id\<close> of advertisements and tokens are nullable foreign keys, hence
  \<open>nat option\<close>. A \<^verbatim>\<open>created_at\<close> is kept as the text \<^verbatim>\<open>str()\<close> gives for it.
  A Python \<^verbatim>\<open>str\<close> is a \<open>string\<close>, one list element for each character, so that
  \<open>length\<close> is Python's \<^verbatim>\<open>len\<close>.
\<close>

record user =
  u_id :: nat
  u_email :: string
  u_password :: string
  u_created_at :: string

record advertisement =
  a_id :: nat
  a_title :: string
  a_description :: string
  a_created_at :: string
  a_user_id :: "nat option"

record token =
  t_id :: string
  t_created_at :: string
  t_user_id :: "nat option"

text \<open>
  The database: the three tables and the two sequences behind the
  \<^verbatim>\<open>autoincrement\<close> keys. A sequence only grows: a value drawn for an insert that
  fails is not given back.
\<close>

record store =
  users :: "user list"
  advertisements :: "advertisement list"
  tokens :: "token list"
  users_id_seq :: nat
  advertisements_id_seq :: nat

definition rows :: "store \<Rightarrow> user list \<times> advertisement list \<times> token list" where
  "rows s = (users s, advertisements s, tokens s)"

text \<open>A parsed JSON value, as \<^verbatim>\<open>request.json()\<close> returns it. A number with a
  fraction or an exponent is kept as the text Python's \<^verbatim>\<open>str\<close> gives for it; an
  object is the list of the items of the parsed \<^verbatim>\<open>dict\<close>.\<close>

datatype json =
    JNull
  | JBool bool
  | JInt int
  | JFloat string
  | JStr string
  | JArr "json list"
  | JObj "(string \<times> json) list"

text \<open>
  What a request brings: its headers, the integers of the route's path segments
  (\<^verbatim>\<open>int(match_info[...])\<close>, the route admits digits only) and its body, \<open>None\<close>
  when the body is not well-formed JSON.
\<close>

record request =
  headers :: "(string \<times> string) list"
  match_info :: "(string \<times> nat) list"
  json_body :: "json option"

text \<open>
  What the handler does not decide: the identifier \<^verbatim>\<open>uuid.uuid4()\<close> draws for a new
  token, the server's clock \<^verbatim>\<open>func.now()\<close>, the salted hash
  \<^verbatim>\<open>hashpw(p.encode(), salt=gensalt()).decode()\<close> of a password (\<open>None\<close> when
  the encoding or the hashing library refuses the password with a \<^verbatim>\<open>ValueError\<close>),
  whether the \<open>k\<close>-th commit of the request is lost to an operational error of the
  database connection, what other sessions commit between the token lookup and the
  insert of \<^verbatim>\<open>AdvertisementView.post\<close> (the only place where the source handles such
  a race; the identity when the request runs alone), and the place of every advertisement
  row in the table's storage, which is the order in which the database returns the rows
  of a query that asks for no order (it can change when a row is updated).
\<close>

record env =
  uuid4 :: string
  now :: string
  hashpw :: "string \<Rightarrow> string option"
  db_fault :: "nat \<Rightarrow> bool"
  interleaved :: "store \<Rightarrow> store"
  row_position :: "advertisement \<Rightarrow> nat"

section \<open>Exceptions and responses\<close>

text \<open>
  The text of an error body \<^verbatim>\<open>{'ERROR': ...}\<close>, one constructor for each message of
  the source:
  \<^item> \<open>ItemNotExist\<close>: \<^verbatim>\<open>item doesn`t exist\<close>;
  \<^item> \<open>OwnerOnly\<close>: the action is permitted to the owner only;
  \<^item> \<open>TooShort attribute min_value\<close>: \<^verbatim>\<open>{attribute} is too short, min_lenght = {min_value}\<close>;
  \<^item> \<open>IncorrectInput\<close>: \<^verbatim>\<open>incorrect input_data!\<close>;
  \<^item> \<open>UserExists\<close>: \<^verbatim>\<open>user is already exists\<close>;
  \<^item> \<open>UserNotExist v\<close>: \<^verbatim>\<open>user {input_data["user_id"]} doesn`t exist\<close>;
  \<^item> \<open>OwnerChange\<close>: the owner of an advertisement cannot be changed.
\<close>

datatype detail =
    ItemNotExist
  | OwnerOnly
  | TooShort string nat
  | IncorrectInput
  | UserExists
  | UserNotExist json
  | OwnerChange

text \<open>
  Every exception a handler can end with. The first three are the HTTP exceptions the
  source raises itself; the framework turns any other exception that leaves a handler
  into a generic response with status 500.
\<close>

datatype exn =
    HTTPBadRequest detail
  | HTTPNotFound detail
  | HTTPUnauthorized detail
  | JSONDecodeError
  | KeyError string
  | TypeError
  | ValueError
  | IntegrityError
  | DataError
  | OperationalError

fun http_status :: "exn \<Rightarrow> nat" where
  "http_status (HTTPBadRequest _) = 400"
| "http_status (HTTPNotFound _) = 404"
| "http_status (HTTPUnauthorized _) = 401"
| "http_status _ = 500"

text \<open>
  The bodies of the \<^verbatim>\<open>web.json_response\<close> calls, each with the values the source
  puts into it:
  \<^item> \<open>UserInfo user_id user_email created_at advs\<close>, all four as the JSON values sent;
  \<^item> \<open>UserCreated new_user.id user_token.id\<close>;
  \<^item> \<open>AdvCreated id title user_id\<close>;
  \<^item> \<open>AdvUpdated id input_data\<close>;
  \<^item> \<open>AdvDeleted id title\<close>.
\<close>

datatype reply =
    UserInfo json json json json
  | UserCreated nat string
  | AdvCreated nat string "nat option"
  | AdvUpdated nat json
  | AdvDeleted nat string

section \<open>Python helpers\<close>

text \<open>\<^verbatim>\<open>str(n)\<close> of an integer.\<close>

fun str_nat :: "nat \<Rightarrow> string" where
  "str_nat n =
     (if n < 10 then [char_of (48 + n)]
      else str_nat (n div 10) @ [char_of (48 + n mod 10)])"

declare str_nat.simps [simp del]

definition str_int :: "int \<Rightarrow> string" where
  "str_int i = (if i < 0 then ''-'' @ str_nat (nat (- i)) else str_nat (nat i))"

text \<open>\<^verbatim>\<open>sep.join(xs)\<close>, and \<^verbatim>\<open>str\<close> of a list whose elements have the given
  \<^verbatim>\<open>repr\<close> texts.\<close>

fun py_join :: "string \<Rightarrow> string list \<Rightarrow> string" where
  "py_join sep [] = []"
| "py_join sep [x] = x"
| "py_join sep (x # y # ys) = x @ sep @ py_join sep (y # ys)"

definition str_list :: "string list \<Rightarrow> string" where
  "str_list reprs = ''['' @ py_join '', '' reprs @ '']''"

text \<open>\<^verbatim>\<open>key in value\<close> for a parsed JSON value: a key of a \<^verbatim>\<open>dict\<close>, an element of
  a \<^verbatim>\<open>list\<close>, a substring of a \<^verbatim>\<open>str\<close>; the other values are not containers.\<close>

fun py_in :: "string \<Rightarrow> json \<Rightarrow> exn + bool" where
  "py_in k (JObj d) = Inr (k \<in> fst ` set d)"
| "py_in k (JArr xs) = Inr (JStr k \<in> set xs)"
| "py_in k (JStr s) = Inr (sublist k s)"
| "py_in k _ = Inl TypeError"

text \<open>
  The name of a header is compared without regard to case (the framework's
  \<^verbatim>\<open>request.headers\<close> is a case-insensitive multi-dictionary): \<open>istr\<close> turns the
  capital letters of a name into small ones.
\<close>

definition lower_char :: "char \<Rightarrow> char" where
  "lower_char c =
     (case map_of (zip ''ABCDEFGHIJKLMNOPQRSTUVWXYZ'' ''abcdefghijklmnopqrstuvwxyz'') c of
        None \<Rightarrow> c
      | Some l \<Rightarrow> l)"

definition istr :: "string \<Rightarrow> string" where
  "istr name = map lower_char name"

section \<open>Validation\<close>

text \<open>
  \<^verbatim>\<open>check_len\<close> raises the HTTP exception itself; otherwise it returns nothing.
\<close>

definition check_len :: "string \<Rightarrow> string \<Rightarrow> nat \<Rightarrow> exn + unit" where
  "check_len value attribute min_value =
     (if length value < min_value
      then Inl (HTTPBadRequest (TooShort attribute min_value))
      else Inr ())"

text \<open>
  The three schema classes. Each declares its fields in order; a field is required or
  \<^verbatim>\<open>Optional\<close>, and its validator, when it has one, is \<^verbatim>\<open>check_len\<close> with the
  field's name and a minimum.
\<close>

datatype validation_model = CreateUser | CreateAdvertisement | UpdateAdvertisement

record model_field =
  f_name :: string
  f_required :: bool
  f_min_len :: "nat option"

fun model_fields :: "validation_model \<Rightarrow> model_field list" where
  "model_fields CreateUser =
     [\<lparr>f_name = ''email'', f_required = True, f_min_len = None\<rparr>,
      \<lparr>f_name = ''password'', f_required = True, f_min_len = Some 5\<rparr>]"
| "model_fields CreateAdvertisement =
     [\<lparr>f_name = ''title'', f_required = True, f_min_len = Some 8\<rparr>,
      \<lparr>f_name = ''description'', f_required = True, f_min_len = Some 5\<rparr>]"
| "model_fields UpdateAdvertisement =
     [\<lparr>f_name = ''title'', f_required = False, f_min_len = Some 8\<rparr>,
      \<lparr>f_name = ''description'', f_required = False, f_min_len = Some 5\<rparr>]"

text \<open>
  The schema library (pydantic 1, whose \<^verbatim>\<open>validator\<close>, \<^verbatim>\<open>Optional\<close> fields without
  default and \<^verbatim>\<open>dict(exclude_none=True)\<close> the source uses) checks a \<^verbatim>\<open>str\<close> field
  as follows. A string is taken as it is, a number or a boolean as its \<^verbatim>\<open>str\<close>, any
  other value is an error of the field.
\<close>

fun str_validator :: "json \<Rightarrow> string option" where
  "str_validator (JStr s) = Some s"
| "str_validator (JInt i) = Some (str_int i)"
| "str_validator (JFloat r) = Some r"
| "str_validator (JBool b) = Some (if b then ''True'' else ''False'')"
| "str_validator _ = None"

text \<open>
  The outcome of one field: an error the library collects, or the value of the field
  (\<open>None\<close> for an optional field left out). A missing required field and a
  \<^verbatim>\<open>null\<close> for a required field are errors; a missing optional field is \<open>None\<close>
  and its validator does not run; a \<^verbatim>\<open>null\<close> given for an optional field goes to
  the field's validator, where \<^verbatim>\<open>len(None)\<close> raises a \<^verbatim>\<open>TypeError\<close> that the
  library collects as an error of the field. The validator of a field runs on the
  converted string, and the HTTP exception of \<^verbatim>\<open>check_len\<close> is none of the
  exceptions the library collects: it leaves the validation at once (\<open>Inl\<close>).
\<close>

datatype field_result = FieldError | FieldValue "string option"

definition validate_field :: "model_field \<Rightarrow> json option \<Rightarrow> exn + field_result" where
  "validate_field f raw =
     (case raw of
        None \<Rightarrow> (if f_required f then Inr FieldError else Inr (FieldValue None))
      | Some v \<Rightarrow>
          (if v = JNull then
             (if f_required f then Inr FieldError
              else (case f_min_len f of
                      None \<Rightarrow> Inr (FieldValue None)
                    | Some min_value \<Rightarrow> Inr FieldError))
           else
             (case str_validator v of
                None \<Rightarrow> Inr FieldError
              | Some value \<Rightarrow>
                  (case f_min_len f of
                     None \<Rightarrow> Inr (FieldValue (Some value))
                   | Some min_value \<Rightarrow>
                       (case check_len value (f_name f) min_value of
                          Inl e \<Rightarrow> Inl e
                        | Inr _ \<Rightarrow> Inr (FieldValue (Some value)))))))"

text \<open>
  The fields are validated in their order. The result says whether no error was
  collected, and holds the items of \<^verbatim>\<open>dict(exclude_none=True)\<close>: the fields whose
  value is not \<open>None\<close>. Keys of the input that are no field are ignored.
\<close>

fun validate_fields ::
  "model_field list \<Rightarrow> (string \<times> json) list \<Rightarrow> exn + (bool \<times> (string \<times> string) list)" where
  "validate_fields [] d = Inr (True, [])"
| "validate_fields (f # fs) d =
     (case validate_field f (map_of d (f_name f)) of
        Inl e \<Rightarrow> Inl e
      | Inr r \<Rightarrow>
          (case validate_fields fs d of
             Inl e \<Rightarrow> Inl e
           | Inr (ok, items) \<Rightarrow>
               (case r of
                  FieldError \<Rightarrow> Inr (False, items)
                | FieldValue None \<Rightarrow> Inr (ok, items)
                | FieldValue (Some value) \<Rightarrow> Inr (ok, (f_name f, value) # items))))"

text \<open>
  \<^verbatim>\<open>validate\<close>: \<^verbatim>\<open>validation_model(**input_data)\<close> needs a mapping (a
  \<^verbatim>\<open>TypeError\<close> otherwise, which the \<^verbatim>\<open>except\<close> clause does not catch); collected
  errors become the \<^verbatim>\<open>ValidationError\<close> that the source turns into its own
  \<^verbatim>\<open>HTTPBadRequest\<close>.
\<close>

definition validate :: "json \<Rightarrow> validation_model \<Rightarrow> exn + (string \<times> string) list" where
  "validate input_data validation_model =
     (case input_data of
        JObj d \<Rightarrow>
          (case validate_fields (model_fields validation_model) d of
             Inl e \<Rightarrow> Inl e
           | Inr (ok, items) \<Rightarrow>
               if ok then Inr items else Inl (HTTPBadRequest IncorrectInput))
      | _ \<Rightarrow> Inl TypeError)"

section \<open>The database session\<close>

text \<open>
  \<^verbatim>\<open>get_item_by_id\<close>: \<^verbatim>\<open>session.get\<close> finds the row of a table by its primary
  key. The table is given by its rows and the selector of its key. A key is taken to be
  one the column's type admits: an integer in the range of \<^verbatim>\<open>Integer\<close>, and for a
  token a text that denotes a UUID, which the string stands for.
\<close>

definition get_item_by_id :: "'k \<Rightarrow> ('r \<Rightarrow> 'k) \<Rightarrow> 'r list \<Rightarrow> exn + 'r" where
  "get_item_by_id item_id pk table =
     (case find (\<lambda>r. pk r = item_id) table of
        None \<Rightarrow> Inl (HTTPNotFound ItemNotExist)
      | Some item \<Rightarrow> Inr item)"

text \<open>
  \<^verbatim>\<open>session.commit()\<close> of one pending statement: the \<open>k\<close>-th commit of a request is
  lost when the connection fails there, and the statement is not applied.
\<close>

definition commit ::
  "env \<Rightarrow> nat \<Rightarrow> (store \<Rightarrow> (exn + 'a) \<times> store) \<Rightarrow> store \<Rightarrow> (exn + 'a) \<times> store" where
  "commit e k stmt s = (if db_fault e k then (Inl OperationalError, s) else stmt s)"

text \<open>
  The inserts, with the constraints of \<^verbatim>\<open>models.py\<close>: \<^verbatim>\<open>nullable=False\<close>,
  \<^verbatim>\<open>unique=True\<close>, the primary keys, the foreign keys (a \<^verbatim>\<open>NULL\<close> reference is
  allowed), which raise \<^verbatim>\<open>IntegrityError\<close>, and the length of \<^verbatim>\<open>String(100)\<close>,
  which raises a \<^verbatim>\<open>DataError\<close>. \<^verbatim>\<open>created_at\<close> is the server's clock.
\<close>

definition fk_ok :: "nat option \<Rightarrow> store \<Rightarrow> bool" where
  "fk_ok ref s = (case ref of None \<Rightarrow> True | Some uid \<Rightarrow> uid \<in> u_id ` set (users s))"

definition insert_user ::
  "env \<Rightarrow> string option \<Rightarrow> string \<Rightarrow> store \<Rightarrow> (exn + user) \<times> store" where
  "insert_user e email_opt pw s =
     (let new_id = Suc (users_id_seq s);
          s1 = s\<lparr>users_id_seq := new_id\<rparr>
      in case email_opt of
           None \<Rightarrow> (Inl IntegrityError, s1)
         | Some em \<Rightarrow>
             if em \<in> u_email ` set (users s) \<or> new_id \<in> u_id ` set (users s)
             then (Inl IntegrityError, s1)
             else
               (let new_user =
                      \<lparr>u_id = new_id, u_email = em, u_password = pw, u_created_at = now e\<rparr>
                in (Inr new_user, s1\<lparr>users := users s @ [new_user]\<rparr>)))"

definition insert_token :: "env \<Rightarrow> nat option \<Rightarrow> store \<Rightarrow> (exn + token) \<times> store" where
  "insert_token e owner s =
     (if uuid4 e \<in> t_id ` set (tokens s) \<or> \<not> fk_ok owner s
      then (Inl IntegrityError, s)
      else
        (let user_token = \<lparr>t_id = uuid4 e, t_created_at = now e, t_user_id = owner\<rparr>
         in (Inr user_token, s\<lparr>tokens := tokens s @ [user_token]\<rparr>)))"

definition insert_advertisement ::
  "env \<Rightarrow> string option \<Rightarrow> string option \<Rightarrow> nat option \<Rightarrow> store
     \<Rightarrow> (exn + advertisement) \<times> store" where
  "insert_advertisement e title_opt description_opt owner s =
     (let new_id = Suc (advertisements_id_seq s);
          s1 = s\<lparr>advertisements_id_seq := new_id\<rparr>
      in case (title_opt, description_opt) of
           (Some title, Some description) \<Rightarrow>
             if 100 < length title then (Inl DataError, s1)
             else if new_id \<in> a_id ` set (advertisements s) \<or> \<not> fk_ok owner s
             then (Inl IntegrityError, s1)
             else
               (let new_advertisement =
                      \<lparr>a_id = new_id, a_title = title, a_description = description,
                       a_created_at = now e, a_user_id = owner\<rparr>
                in (Inr new_advertisement,
                    s1\<lparr>advertisements := advertisements s @ [new_advertisement]\<rparr>))
         | _ \<Rightarrow> (Inl IntegrityError, s1))"

text \<open>The update and the delete of the advertisement of a given key.\<close>

definition update_advertisement :: "advertisement \<Rightarrow> store \<Rightarrow> (exn + unit) \<times> store" where
  "update_advertisement adv s =
     (if 100 < length (a_title adv) then (Inl DataError, s)
      else (Inr (),
            s\<lparr>advertisements :=
                 map (\<lambda>a. if a_id a = a_id adv then adv else a) (advertisements s)\<rparr>))"

definition delete_advertisement :: "advertisement \<Rightarrow> store \<Rightarrow> (exn + unit) \<times> store" where
  "delete_advertisement adv s =
     (Inr (), s\<lparr>advertisements := filter (\<lambda>a. a_id a \<noteq> a_id adv) (advertisements s)\<rparr>)"

section \<open>The handlers\<close>

text \<open>
  A handler ends with an exception or with the body of its JSON response, and leaves a
  store. \<^verbatim>\<open>int(self.request.match_info[key])\<close> and \<^verbatim>\<open>request.headers['token']\<close>
  raise \<^verbatim>\<open>KeyError\<close> for a key that is not there. \<^verbatim>\<open>request.headers[key]\<close> is
  the value of the first header whose name is the key in any case of its letters.
\<close>

definition path_int :: "request \<Rightarrow> string \<Rightarrow> exn + nat" where
  "path_int req key =
     (case map_of (match_info req) key of None \<Rightarrow> Inl (KeyError key) | Some n \<Rightarrow> Inr n)"

definition header :: "request \<Rightarrow> string \<Rightarrow> exn + string" where
  "header req key =
     (case map_of (map (\<lambda>(name, v). (istr name, v)) (headers req)) (istr key) of
        None \<Rightarrow> Inl (KeyError key)
      | Some v \<Rightarrow> Inr v)"

definition check_token_in_headers :: "advertisement \<Rightarrow> request \<Rightarrow> store \<Rightarrow> exn + bool" where
  "check_token_in_headers advertisement req s =
     (case header req ''token'' of
        Inl e \<Rightarrow> Inl e
      | Inr token_in_request \<Rightarrow>
          (case get_item_by_id token_in_request t_id (tokens s) of
             Inl e \<Rightarrow> Inl e
           | Inr token_owner \<Rightarrow>
               if a_user_id advertisement = t_user_id token_owner then Inr True
               else Inl (HTTPUnauthorized OwnerOnly)))"

text \<open>
  \<^verbatim>\<open>user.advs\<close> is the relationship to the advertisements whose \<^verbatim>\<open>user_id\<close> is the
  user's key. It is declared without \<^verbatim>\<open>order_by\<close>, so the rows come in the order
  of their places in the storage. \<^verbatim>\<open>Advertisement.__repr__\<close> shows an advertisement
  as its title in angle brackets.
\<close>

definition advs :: "env \<Rightarrow> store \<Rightarrow> user \<Rightarrow> advertisement list" where
  "advs e s u =
     sort_key (row_position e) (filter (\<lambda>a. a_user_id a = Some (u_id u)) (advertisements s))"

definition repr_advertisement :: "advertisement \<Rightarrow> string" where
  "repr_advertisement a = ''<'' @ a_title a @ ''>''"

definition UserView_get :: "env \<Rightarrow> request \<Rightarrow> store \<Rightarrow> exn + reply" where
  "UserView_get e req s =
     (case path_int req ''user_id'' of
        Inl x \<Rightarrow> Inl x
      | Inr item_id \<Rightarrow>
          (case get_item_by_id item_id u_id (users s) of
             Inl x \<Rightarrow> Inl x
           | Inr u \<Rightarrow>
               Inr (UserInfo (JInt (int (u_id u))) (JStr (u_email u)) (JStr (u_created_at u))
                      (JStr (str_list (map repr_advertisement (advs e s u)))))))"

text \<open>
  \<^verbatim>\<open>UserView.post\<close>: the user is committed first; only an \<^verbatim>\<open>IntegrityError\<close> of
  that commit is caught. The token is committed second, with nothing caught.
\<close>

definition UserView_post :: "env \<Rightarrow> request \<Rightarrow> store \<Rightarrow> (exn + reply) \<times> store" where
  "UserView_post e req s =
     (case json_body req of
        None \<Rightarrow> (Inl JSONDecodeError, s)
      | Some json_data \<Rightarrow>
     (case validate json_data CreateUser of
        Inl x \<Rightarrow> (Inl x, s)
      | Inr validated_data \<Rightarrow>
     (case map_of validated_data ''password'' of
        None \<Rightarrow> (Inl (KeyError ''password''), s)
      | Some password \<Rightarrow>
     (case hashpw e password of
        None \<Rightarrow> (Inl ValueError, s)
      | Some hashed \<Rightarrow>
     (case commit e 0 (insert_user e (map_of validated_data ''email'') hashed) s of
        (Inl x, s1) \<Rightarrow>
          (Inl (if x = IntegrityError then HTTPBadRequest UserExists else x), s1)
      | (Inr new_user, s1) \<Rightarrow>
     (case commit e 1 (insert_token e (Some (u_id new_user))) s1 of
        (Inl x, s2) \<Rightarrow> (Inl x, s2)
      | (Inr user_token, s2) \<Rightarrow>
          (Inr (UserCreated (u_id new_user) (t_id user_token)), s2)))))))"

text \<open>
  \<^verbatim>\<open>AdvertisementView.post\<close>: validation, then the token, then the insert. The
  \<^verbatim>\<open>except IntegrityError\<close> clause reads \<^verbatim>\<open>input_data["user_id"]\<close>, the request's
  body, to build its message.
\<close>

definition AdvertisementView_post :: "env \<Rightarrow> request \<Rightarrow> store \<Rightarrow> (exn + reply) \<times> store" where
  "AdvertisementView_post e req s =
     (case json_body req of
        None \<Rightarrow> (Inl JSONDecodeError, s)
      | Some input_data \<Rightarrow>
     (case validate input_data CreateAdvertisement of
        Inl x \<Rightarrow> (Inl x, s)
      | Inr validated_data \<Rightarrow>
     (case header req ''token'' of
        Inl x \<Rightarrow> (Inl x, s)
      | Inr token_in_request \<Rightarrow>
     (case get_item_by_id token_in_request t_id (tokens s) of
        Inl x \<Rightarrow> (Inl x, s)
      | Inr token_owner \<Rightarrow>
     (case commit e 0
             (insert_advertisement e (map_of validated_data ''title'')
                (map_of validated_data ''description'') (t_user_id token_owner))
             (interleaved e s) of
        (Inl x, s1) \<Rightarrow>
          (if x = IntegrityError then
             (case input_data of
                JObj d \<Rightarrow>
                  (case map_of d ''user_id'' of
                     None \<Rightarrow> (Inl (KeyError ''user_id''), s1)
                   | Some v \<Rightarrow> (Inl (HTTPBadRequest (UserNotExist v)), s1))
              | _ \<Rightarrow> (Inl TypeError, s1))
           else (Inl x, s1))
      | (Inr new_advertisement, s1) \<Rightarrow>
          (Inr (AdvCreated (a_id new_advertisement) (a_title new_advertisement)
                  (a_user_id new_advertisement)), s1))))))"

text \<open>
  \<^verbatim>\<open>AdvertisementView.patch\<close>: the \<^verbatim>\<open>user_id\<close> check, validation, the
  advertisement, the owner, then \<^verbatim>\<open>setattr\<close> for every validated item and the
  commit.
\<close>

definition setattr :: "advertisement \<Rightarrow> string \<times> string \<Rightarrow> advertisement" where
  "setattr adv item =
     (if fst item = ''title'' then adv\<lparr>a_title := snd item\<rparr>
      else if fst item = ''description'' then adv\<lparr>a_description := snd item\<rparr>
      else adv)"

definition AdvertisementView_patch :: "env \<Rightarrow> request \<Rightarrow> store \<Rightarrow> (exn + reply) \<times> store" where
  "AdvertisementView_patch e req s =
     (case json_body req of
        None \<Rightarrow> (Inl JSONDecodeError, s)
      | Some input_data \<Rightarrow>
     (case py_in ''user_id'' input_data of
        Inl x \<Rightarrow> (Inl x, s)
      | Inr present \<Rightarrow>
     (if present then (Inl (HTTPBadRequest OwnerChange), s)
      else
     (case validate input_data UpdateAdvertisement of
        Inl x \<Rightarrow> (Inl x, s)
      | Inr validated_data \<Rightarrow>
     (case path_int req ''adv_id'' of
        Inl x \<Rightarrow> (Inl x, s)
      | Inr item_id \<Rightarrow>
     (case get_item_by_id item_id a_id (advertisements s) of
        Inl x \<Rightarrow> (Inl x, s)
      | Inr adv \<Rightarrow>
     (case check_token_in_headers adv req s of
        Inl x \<Rightarrow> (Inl x, s)
      | Inr _ \<Rightarrow>
     (case commit e 0 (update_advertisement (foldl setattr adv validated_data)) s of
        (Inl x, s1) \<Rightarrow> (Inl x, s1)
      | (Inr _, s1) \<Rightarrow> (Inr (AdvUpdated (a_id adv) input_data), s1)))))))))"

definition AdvertisementView_delete :: "env \<Rightarrow> request \<Rightarrow> store \<Rightarrow> (exn + reply) \<times> store" where
  "AdvertisementView_delete e req s =
     (case path_int req ''adv_id'' of
        Inl x \<Rightarrow> (Inl x, s)
      | Inr item_id \<Rightarrow>
     (case get_item_by_id item_id a_id (advertisements s) of
        Inl x \<Rightarrow> (Inl x, s)
      | Inr adv \<Rightarrow>
     (case check_token_in_headers adv req s of
        Inl x \<Rightarrow> (Inl x, s)
      | Inr _ \<Rightarrow>
     (case commit e 0 (delete_advertisement adv) s of
        (Inl x, s1) \<Rightarrow> (Inl x, s1)
      | (Inr _, s1) \<Rightarrow> (Inr (AdvDeleted (a_id adv) (a_title adv)), s1)))))"

section \<open>Example data\<close>

text \<open>
  A clock reading, two token identifiers, an environment without faults or interference
  (its hash function stands in for bcrypt; the advertisements are stored in the order of
  their keys), the empty database, and a database with two users, their tokens, and one
  advertisement of the first user.
\<close>

definition clock0 :: string where
  "clock0 = ''2023-05-01 12:00:00''"

definition tokA :: string where
  "tokA = ''11111111-1111-4111-8111-111111111111''"

definition tokB :: string where
  "tokB = ''22222222-2222-4222-8222-222222222222''"

definition env0 :: env where
  "env0 = \<lparr>uuid4 = ''7c9e6679-7425-40de-944b-e07fc1f90ae7'', now = clock0,
           hashpw = (\<lambda>p. Some (''bcrypt:'' @ p)), db_fault = (\<lambda>k. False),
           interleaved = (\<lambda>s. s), row_position = a_id\<rparr>"

definition store0 :: store where
  "store0 = \<lparr>users = [], advertisements = [], tokens = [],
             users_id_seq = 0, advertisements_id_seq = 0\<rparr>"

definition alice :: user where
  "alice = \<lparr>u_id = 1, u_email = ''a@x.com'', u_password = ''bcrypt:abcde'',
            u_created_at = clock0\<rparr>"

definition bob :: user where
  "bob = \<lparr>u_id = 2, u_email = ''b@x.com'', u_password = ''bcrypt:fghij'',
          u_created_at = clock0\<rparr>"

definition ad1 :: advertisement where
  "ad1 = \<lparr>a_id = 1, a_title = ''Long enough title'', a_description = ''short'',
          a_created_at = clock0, a_user_id = Some 1\<rparr>"

definition store1 :: store where
  "store1 = \<lparr>users = [alice, bob], advertisements = [ad1],
             tokens = [\<lparr>t_id = tokA, t_created_at = clock0, t_user_id = Some 1\<rparr>,
                       \<lparr>t_id = tokB, t_created_at = clock0, t_user_id = Some 2\<rparr>],
             users_id_seq = 2, advertisements_id_seq = 1\<rparr>"

text \<open>
  A third user, as a registration with the password \<^verbatim>\<open>abcde\<close> creates her in
  \<open>store1\<close>; a second advertisement with the title of the first; and what another
  session leaves when it deletes a user: the row is gone and the references to it are
  cleared.
\<close>

definition carol :: user where
  "carol = \<lparr>u_id = 3, u_email = ''c@x.com'', u_password = ''bcrypt:abcde'',
            u_created_at = clock0\<rparr>"

definition ad2 :: advertisement where
  "ad2 = \<lparr>a_id = 2, a_title = ''Long enough title'', a_description = ''other'',
          a_created_at = clock0, a_user_id = Some 1\<rparr>"

definition ad3 :: advertisement where
  "ad3 = \<lparr>a_id = 2, a_title = ''Second title here'', a_description = ''other'',
          a_created_at = clock0, a_user_id = Some 1\<rparr>"

definition user_deleted :: "nat \<Rightarrow> store \<Rightarrow> store" where
  "user_deleted uid s =
     s\<lparr>users := filter (\<lambda>u. u_id u \<noteq> uid) (users s),
       advertisements :=
         map (\<lambda>a. if a_user_id a = Some uid then a\<lparr>a_user_id := None\<rparr> else a)
           (advertisements s),
       tokens :=
         map (\<lambda>t. if t_user_id t = Some uid then t\<lparr>t_user_id := None\<rparr> else t) (tokens s)\<rparr>"

lemmas ex_defs =
  store0_def store1_def alice_def bob_def carol_def ad1_def ad2_def ad3_def env0_def tokA_def
  tokB_def user_deleted_def

lemmas run_defs =
  validate_def validate_field_def check_len_def commit_def insert_user_def insert_token_def
  insert_advertisement_def fk_ok_def Let_def get_item_by_id_def header_def path_int_def
  check_token_in_headers_def update_advertisement_def delete_advertisement_def setattr_def
  istr_def lower_char_def

section \<open>Header names\<close>

text \<open>The token is read from a header written \<^verbatim>\<open>TOKEN\<close> or \<^verbatim>\<open>Token\<close> as well.\<close>

lemma header_any_case:
  "header \<lparr>headers = [(''Accept'', ''*/*''), (''TOKEN'', tokA)], match_info = [],
           json_body = None\<rparr> ''token'' = Inr tokA
   \<and> header \<lparr>headers = [(''Token'', tokB)], match_info = [], json_body = None\<rparr> ''token''
       = Inr tokB
   \<and> header \<lparr>headers = [(''Accept'', ''*/*'')], match_info = [], json_body = None\<rparr> ''token''
       = Inl (KeyError ''token'')"
  by (simp add: header_def istr_def lower_char_def)

section \<open>Validation failures\<close>

lemma validate_field_short:
  "f_min_len f = Some n \<Longrightarrow> length v < n \<Longrightarrow>
   validate_field f (Some (JStr v)) = Inl (HTTPBadRequest (TooShort (f_name f) n))"
  by (simp add: validate_field_def check_len_def)

lemma validate_field_Inl:
  "validate_field f raw = Inl x \<Longrightarrow> \<exists>n. x = HTTPBadRequest (TooShort (f_name f) n)"
  by (auto simp: validate_field_def check_len_def split: option.splits if_splits)

lemma validate_fields_short:
  assumes "f \<in> set fs" "f_min_len f = Some n"
    and "map_of d (f_name f) = Some (JStr v)" "length v < n"
  shows "\<exists>m. validate_fields fs d = Inl (HTTPBadRequest m)"
  using assms(1)
proof (induction fs)
  case Nil
  then show ?case by simp
next
  case (Cons g gs)
  show ?case
  proof (cases "validate_field g (map_of d (f_name g))")
    case (Inl x)
    then show ?thesis using validate_field_Inl [OF Inl] by auto
  next
    case (Inr r)
    have "g \<noteq> f"
      using Inr validate_field_short [OF assms(2) assms(4)] assms(3) by auto
    with Cons obtain m where "validate_fields gs d = Inl (HTTPBadRequest m)" by auto
    with Inr show ?thesis by simp
  qed
qed

lemma validate_short:
  assumes "f \<in> set (model_fields vm)" "f_min_len f = Some n"
    and "map_of d (f_name f) = Some (JStr v)" "length v < n"
  shows "\<exists>m. validate (JObj d) vm = Inl (HTTPBadRequest m)"
  using validate_fields_short [OF assms] by (auto simp: validate_def)

text \<open>
  C7. A payload whose password is a string of fewer than 5 characters (user creation),
  or whose title is a string of fewer than 8 characters or whose description is a string
  of fewer than 5 characters (advertisement creation and update), is refused with
  \<^verbatim>\<open>HTTPBadRequest\<close>; the length is the number of characters of the string, and the
  database is left as it was: no row is created or changed.
\<close>

theorem short_fields_rejected:
  assumes "json_body req = Some (JObj d)"
  shows "(map_of d ''password'' = Some (JStr p) \<and> length p < 5 \<longrightarrow>
            (\<exists>m. UserView_post e req s = (Inl (HTTPBadRequest m), s)))
       \<and> ((map_of d ''title'' = Some (JStr t) \<and> length t < 8)
            \<or> (map_of d ''description'' = Some (JStr x) \<and> length x < 5) \<longrightarrow>
            (\<exists>m. AdvertisementView_post e req s = (Inl (HTTPBadRequest m), s))
          \<and> (\<exists>m. AdvertisementView_patch e req s = (Inl (HTTPBadRequest m), s)))"
proof (intro conjI impI)
  assume "map_of d ''password'' = Some (JStr p) \<and> length p < 5"
  then obtain m where "validate (JObj d) CreateUser = Inl (HTTPBadRequest m)"
    using validate_short [of "\<lparr>f_name = ''password'', f_required = True, f_min_len = Some 5\<rparr>"
        CreateUser 5 d p] by auto
  then show "\<exists>m. UserView_post e req s = (Inl (HTTPBadRequest m), s)"
    using assms by (simp add: UserView_post_def)
next
  assume a: "(map_of d ''title'' = Some (JStr t) \<and> length t < 8)
            \<or> (map_of d ''description'' = Some (JStr x) \<and> length x < 5)"
  have "\<exists>m. validate (JObj d) CreateAdvertisement = Inl (HTTPBadRequest m)"
    using a validate_short [of "\<lparr>f_name = ''title'', f_required = True, f_min_len = Some 8\<rparr>"
        CreateAdvertisement 8 d t]
      validate_short [of "\<lparr>f_name = ''description'', f_required = True, f_min_len = Some 5\<rparr>"
        CreateAdvertisement 5 d x]
    by auto
  then show "\<exists>m. AdvertisementView_post e req s = (Inl (HTTPBadRequest m), s)"
    using assms by (auto simp: AdvertisementView_post_def)
  have "\<exists>m. validate (JObj d) UpdateAdvertisement = Inl (HTTPBadRequest m)"
    using a validate_short [of "\<lparr>f_name = ''title'', f_required = False, f_min_len = Some 8\<rparr>"
        UpdateAdvertisement 8 d t]
      validate_short [of "\<lparr>f_name = ''description'', f_required = False, f_min_len = Some 5\<rparr>"
        UpdateAdvertisement 5 d x]
    by auto
  then show "\<exists>m. AdvertisementView_patch e req s = (Inl (HTTPBadRequest m), s)"
    using assms by (auto simp: AdvertisementView_patch_def)
qed

text \<open>
  The theorem at a registration with the password \<^verbatim>\<open>abcd\<close>, and at the creation and
  the update of an advertisement with the title \<^verbatim>\<open>short\<close> by its owner.
\<close>

theorem short_fields_rejected_witness:
  "(\<exists>m. UserView_post env0
           \<lparr>headers = [], match_info = [],
            json_body = Some (JObj [(''email'', JStr ''c@x.com''), (''password'', JStr ''abcd'')])\<rparr>
           store1 = (Inl (HTTPBadRequest m), store1))
   \<and> (\<exists>m. AdvertisementView_post env0
           \<lparr>headers = [(''token'', tokA)], match_info = [(''adv_id'', 1)],
            json_body = Some (JObj [(''title'', JStr ''short''), (''description'', JStr ''A fine bicycle'')])\<rparr>
           store1 = (Inl (HTTPBadRequest m), store1))
   \<and> (\<exists>m. AdvertisementView_patch env0
           \<lparr>headers = [(''token'', tokA)], match_info = [(''adv_id'', 1)],
            json_body = Some (JObj [(''title'', JStr ''short''), (''description'', JStr ''A fine bicycle'')])\<rparr>
           store1 = (Inl (HTTPBadRequest m), store1))"
  using short_fields_rejected [of
      "\<lparr>headers = [], match_info = [],
        json_body = Some (JObj [(''email'', JStr ''c@x.com''), (''password'', JStr ''abcd'')])\<rparr>"
      "[(''email'', JStr ''c@x.com''), (''password'', JStr ''abcd'')]" "''abcd''" env0 store1]
    short_fields_rejected [of
      "\<lparr>headers = [(''token'', tokA)], match_info = [(''adv_id'', 1)],
        json_body = Some (JObj [(''title'', JStr ''short''), (''description'', JStr ''A fine bicycle'')])\<rparr>"
      "[(''title'', JStr ''short''), (''description'', JStr ''A fine bicycle'')]"
      p env0 store1 "''short''" for p]
  by simp

section \<open>The owner of an advertisement cannot be changed\<close>

text \<open>
  C6. An update request (PATCH) whose body has a \<^verbatim>\<open>user_id\<close> field is refused with
  \<^verbatim>\<open>HTTPBadRequest\<close> and the database is left as it was, whatever the headers and
  the database are: the token may be valid, unknown or absent.
\<close>

theorem patch_user_id_rejected:
  "json_body req = Some (JObj d) \<Longrightarrow> ''user_id'' \<in> fst ` set d \<Longrightarrow>
   AdvertisementView_patch e req s = (Inl (HTTPBadRequest OwnerChange), s)"
  by (simp add: AdvertisementView_patch_def)

text \<open>The theorem with the owner's token, with an unknown token and with no token.\<close>

theorem patch_user_id_rejected_witness:
  "AdvertisementView_patch env0
     \<lparr>headers = [(''token'', tokA)], match_info = [(''adv_id'', 1)],
      json_body = Some (JObj [(''title'', JStr ''Updated title!!''), (''user_id'', JInt 2)])\<rparr>
     store1 = (Inl (HTTPBadRequest OwnerChange), store1)
   \<and> AdvertisementView_patch env0
     \<lparr>headers = [(''token'', ''no such token'')], match_info = [(''adv_id'', 1)],
      json_body = Some (JObj [(''title'', JStr ''Updated title!!''), (''user_id'', JInt 2)])\<rparr>
     store1 = (Inl (HTTPBadRequest OwnerChange), store1)
   \<and> AdvertisementView_patch env0
     \<lparr>headers = [], match_info = [(''adv_id'', 1)],
      json_body = Some (JObj [(''title'', JStr ''Updated title!!''), (''user_id'', JInt 2)])\<rparr>
     store1 = (Inl (HTTPBadRequest OwnerChange), store1)"
  using patch_user_id_rejected [of
      "\<lparr>headers = h, match_info = [(''adv_id'', 1)],
        json_body = Some (JObj [(''title'', JStr ''Updated title!!''), (''user_id'', JInt 2)])\<rparr>"
      "[(''title'', JStr ''Updated title!!''), (''user_id'', JInt 2)]" env0 store1 for h]
  by simp

section \<open>Malformed JSON\<close>




section \<open>Reading a user\<close>

text \<open>
  C5, as the source has it. For every existing user id, \<^verbatim>\<open>GET /users/{user_id}/\<close>
  returns the user's id, email and \<^verbatim>\<open>created_at\<close>, and in \<^verbatim>\<open>advs\<close> one string:
  the text of a list of the advertisements the user owns, each of them once and each
  shown as its title in angle brackets, in the order in which the database returns them.
\<close>

theorem user_get_fields:
  assumes "map_of (match_info req) ''user_id'' = Some uid"
    and "find (\<lambda>r. u_id r = uid) (users s) = Some u"
  shows "\<exists>loaded.
           mset loaded = mset (filter (\<lambda>a. a_user_id a = Some uid) (advertisements s))
         \<and> UserView_get e req s =
             Inr (UserInfo (JInt (int uid)) (JStr (u_email u)) (JStr (u_created_at u))
                    (JStr (''['' @ py_join '', '' (map (\<lambda>a. ''<'' @ a_title a @ ''>'') loaded)
                           @ '']'')))"
proof -
  have id: "u_id u = uid" using assms(2) by (auto simp: find_Some_iff)
  have "mset (advs e s u) = mset (filter (\<lambda>a. a_user_id a = Some uid) (advertisements s))"
    using id by (simp add: advs_def)
  moreover have "UserView_get e req s =
      Inr (UserInfo (JInt (int uid)) (JStr (u_email u)) (JStr (u_created_at u))
             (JStr (''['' @ py_join '', '' (map (\<lambda>a. ''<'' @ a_title a @ ''>'') (advs e s u))
                    @ '']'')))"
    using id assms
    by (simp add: UserView_get_def path_int_def get_item_by_id_def str_list_def
        repr_advertisement_def cong: map_cong)
  ultimately show ?thesis by blast
qed

text \<open>
  The theorem at the first user, who owns two advertisements, the first of them stored
  behind the second (as after an update of its title): the second comes first in
  \<^verbatim>\<open>advs\<close>.
\<close>

theorem user_get_fields_witness:
  "(\<exists>loaded.
      mset loaded = mset [ad1\<lparr>a_title := ''Updated title!!''\<rparr>, ad3]
    \<and> UserView_get (env0\<lparr>row_position := (\<lambda>a. 3 - a_id a)\<rparr>)
        \<lparr>headers = [], match_info = [(''user_id'', 1)], json_body = None\<rparr>
        (store1\<lparr>advertisements := [ad1\<lparr>a_title := ''Updated title!!''\<rparr>, ad3]\<rparr>) =
        Inr (UserInfo (JInt 1) (JStr ''a@x.com'') (JStr clock0)
               (JStr (''['' @ py_join '', '' (map (\<lambda>a. ''<'' @ a_title a @ ''>'') loaded)
                      @ '']''))))
   \<and> UserView_get (env0\<lparr>row_position := (\<lambda>a. 3 - a_id a)\<rparr>)
        \<lparr>headers = [], match_info = [(''user_id'', 1)], json_body = None\<rparr>
        (store1\<lparr>advertisements := [ad1\<lparr>a_title := ''Updated title!!''\<rparr>, ad3]\<rparr>) =
        Inr (UserInfo (JInt 1) (JStr ''a@x.com'') (JStr clock0)
               (JStr ''[<Second title here>, <Updated title!!>]''))"
proof
  show "\<exists>loaded.
      mset loaded = mset [ad1\<lparr>a_title := ''Updated title!!''\<rparr>, ad3]
    \<and> UserView_get (env0\<lparr>row_position := (\<lambda>a. 3 - a_id a)\<rparr>)
        \<lparr>headers = [], match_info = [(''user_id'', 1)], json_body = None\<rparr>
        (store1\<lparr>advertisements := [ad1\<lparr>a_title := ''Updated title!!''\<rparr>, ad3]\<rparr>) =
        Inr (UserInfo (JInt 1) (JStr ''a@x.com'') (JStr clock0)
               (JStr (''['' @ py_join '', '' (map (\<lambda>a. ''<'' @ a_title a @ ''>'') loaded)
                      @ '']'')))"
    using user_get_fields
      [of "\<lparr>headers = [], match_info = [(''user_id'', 1)], json_body = None\<rparr>" 1
        "store1\<lparr>advertisements := [ad1\<lparr>a_title := ''Updated title!!''\<rparr>, ad3]\<rparr>" alice
        "env0\<lparr>row_position := (\<lambda>a. 3 - a_id a)\<rparr>"]
    by (simp add: store1_def alice_def bob_def ad1_def ad3_def)
  show "UserView_get (env0\<lparr>row_position := (\<lambda>a. 3 - a_id a)\<rparr>)
        \<lparr>headers = [], match_info = [(''user_id'', 1)], json_body = None\<rparr>
        (store1\<lparr>advertisements := [ad1\<lparr>a_title := ''Updated title!!''\<rparr>, ad3]\<rparr>) =
        Inr (UserInfo (JInt 1) (JStr ''a@x.com'') (JStr clock0)
               (JStr ''[<Second title here>, <Updated title!!>]''))"
    by (simp add: UserView_get_def path_int_def get_item_by_id_def advs_def str_list_def
        repr_advertisement_def sort_key_def ex_defs)
qed

text \<open>
  The claim as it stands fails: \<^verbatim>\<open>advs\<close> does not hold the identifiers. The user
  owns advertisement 1 in one database and advertisement 2 in the other, and the
  response is the same.
\<close>

theorem user_get_advs_counterexample:
  "UserView_get env0 \<lparr>headers = [], match_info = [(''user_id'', 1)], json_body = None\<rparr>
       store1 =
     Inr (UserInfo (JInt 1) (JStr ''a@x.com'') (JStr clock0) (JStr ''[<Long enough title>]''))
   \<and> UserView_get env0 \<lparr>headers = [], match_info = [(''user_id'', 1)], json_body = None\<rparr>
       (store1\<lparr>advertisements := [ad2]\<rparr>) =
     Inr (UserInfo (JInt 1) (JStr ''a@x.com'') (JStr clock0) (JStr ''[<Long enough title>]''))
   \<and> map a_id (advs env0 store1 alice) = [1]
   \<and> map a_id (advs env0 (store1\<lparr>advertisements := [ad2]\<rparr>) alice) = [2]"
  by (simp add: UserView_get_def path_int_def get_item_by_id_def advs_def str_list_def
        repr_advertisement_def sort_key_def ex_defs)

section \<open>Registration\<close>

lemma insert_user_Inr:
  "insert_user e em pw s = (Inr u, s1) \<Longrightarrow>
   users s1 = users s @ [u] \<and> tokens s1 = tokens s \<and> advertisements s1 = advertisements s"
  by (auto simp: insert_user_def Let_def split: option.splits if_splits)

lemma insert_token_Inl:
  "insert_token e owner s = (Inl x, s2) \<Longrightarrow> x = IntegrityError \<and> s2 = s"
  by (auto simp: insert_token_def Let_def split: if_splits)

lemma commit_cases:
  "commit e k stmt s = (r, s1) \<Longrightarrow>
   (r = Inl OperationalError \<and> s1 = s) \<or> stmt s = (r, s1)"
  by (auto simp: commit_def split: if_splits)

text \<open>
  C1, as the source has it. On registration the user and the token are committed one
  after the other. When the commit of the user has succeeded and the commit of the token
  cannot complete, the handler ends with the error of that commit, a generic server
  error (status 500); the user's row stays in the database and no token is added.
\<close>

theorem registration_token_failure:
  assumes "json_body req = Some j" "validate j CreateUser = Inr v"
    and "map_of v ''password'' = Some pw" "hashpw e pw = Some hashed"
    and "commit e 0 (insert_user e (map_of v ''email'') hashed) s = (Inr u, s1)"
    and "commit e 1 (insert_token e (Some (u_id u))) s1 = (Inl x, s2)"
  shows "UserView_post e req s = (Inl x, s2) \<and> http_status x = 500
       \<and> users s2 = users s @ [u] \<and> tokens s2 = tokens s"
proof -
  have post: "UserView_post e req s = (Inl x, s2)"
    using assms by (simp add: UserView_post_def)
  have "insert_user e (map_of v ''email'') hashed s = (Inr u, s1)"
    using commit_cases [OF assms(5)] by auto
  then have s1: "users s1 = users s @ [u]" "tokens s1 = tokens s"
    using insert_user_Inr by blast+
  have "(x = OperationalError \<or> x = IntegrityError) \<and> s2 = s1"
    using commit_cases [OF assms(6)] insert_token_Inl by blast
  with post s1 show ?thesis by auto
qed

text \<open>
  The theorem at a registration in \<open>store1\<close> whose second commit is lost: the third
  user is there afterwards, without a token.
\<close>

theorem registration_token_failure_witness:
  "UserView_post (env0\<lparr>db_fault := (\<lambda>k. k = 1)\<rparr>)
     \<lparr>headers = [], match_info = [],
      json_body = Some (JObj [(''email'', JStr ''c@x.com''), (''password'', JStr ''abcde'')])\<rparr>
     store1
   = (Inl OperationalError, store1\<lparr>users := [alice, bob, carol], users_id_seq := 3\<rparr>)
   \<and> http_status OperationalError = 500
   \<and> users (store1\<lparr>users := [alice, bob, carol], users_id_seq := 3\<rparr>) = users store1 @ [carol]
   \<and> tokens (store1\<lparr>users := [alice, bob, carol], users_id_seq := 3\<rparr>) = tokens store1"
  using registration_token_failure [of
      "\<lparr>headers = [], match_info = [],
        json_body = Some (JObj [(''email'', JStr ''c@x.com''), (''password'', JStr ''abcde'')])\<rparr>"
      "JObj [(''email'', JStr ''c@x.com''), (''password'', JStr ''abcde'')]"
      "[(''email'', ''c@x.com''), (''password'', ''abcde'')]" "''abcde''"
      "env0\<lparr>db_fault := (\<lambda>k. k = 1)\<rparr>" "''bcrypt:abcde''" store1 carol
      "store1\<lparr>users := [alice, bob, carol], users_id_seq := 3\<rparr>" OperationalError
      "store1\<lparr>users := [alice, bob, carol], users_id_seq := 3\<rparr>"]
  by (simp add: ex_defs run_defs)

text \<open>
  The claim as it stands fails: in the empty database, with the second commit lost, the
  registration ends with an error, and a user row has survived with no token.
\<close>

theorem registration_not_atomic_counterexample:
  "fst (UserView_post (env0\<lparr>db_fault := (\<lambda>k. k = 1)\<rparr>)
     \<lparr>headers = [], match_info = [],
      json_body = Some (JObj [(''email'', JStr ''c@x.com''), (''password'', JStr ''abcde'')])\<rparr>
     store0) = Inl OperationalError
   \<and> users (snd (UserView_post (env0\<lparr>db_fault := (\<lambda>k. k = 1)\<rparr>)
     \<lparr>headers = [], match_info = [],
      json_body = Some (JObj [(''email'', JStr ''c@x.com''), (''password'', JStr ''abcde'')])\<rparr>
     store0)) = [\<lparr>u_id = 1, u_email = ''c@x.com'', u_password = ''bcrypt:abcde'',
            u_created_at = clock0\<rparr>]
   \<and> tokens (snd (UserView_post (env0\<lparr>db_fault := (\<lambda>k. k = 1)\<rparr>)
     \<lparr>headers = [], match_info = [],
      json_body = Some (JObj [(''email'', JStr ''c@x.com''), (''password'', JStr ''abcde'')])\<rparr>
     store0)) = []"
  by (simp add: UserView_post_def ex_defs run_defs)

text \<open>
  C9, as the source has it. The \<^verbatim>\<open>email\<close> of \<^verbatim>\<open>CreateUser\<close> is any string: with
  a password of at least 5 characters, a payload whose email is the empty string passes
  validation with the empty email kept, and the handler inserts a user row with the empty
  email, unless the password cannot be hashed, the first commit is lost or the row breaks
  a constraint of the table (a user with the empty email is there already, or the key is
  taken).
\<close>

theorem empty_email_accepted:
  assumes "json_body req = Some (JObj d)"
    and "map_of d ''email'' = Some (JStr '''')" "map_of d ''password'' = Some (JStr p)"
    and "5 \<le> length p"
  shows "validate (JObj d) CreateUser = Inr [(''email'', ''''), (''password'', p)]
       \<and> (hashpw e p = Some hashed \<and> \<not> db_fault e 0
            \<and> '''' \<notin> u_email ` set (users s)
            \<and> Suc (users_id_seq s) \<notin> u_id ` set (users s) \<longrightarrow>
          users (snd (UserView_post e req s)) =
            users s @ [\<lparr>u_id = Suc (users_id_seq s), u_email = '''', u_password = hashed,
                         u_created_at = now e\<rparr>])"
proof -
  have v: "validate (JObj d) CreateUser = Inr [(''email'', ''''), (''password'', p)]"
    using assms by (simp add: validate_def validate_field_def check_len_def)
  show ?thesis
  proof (intro conjI impI)
    show "validate (JObj d) CreateUser = Inr [(''email'', ''''), (''password'', p)]"
      by (fact v)
  next
    assume a: "hashpw e p = Some hashed \<and> \<not> db_fault e 0
            \<and> '''' \<notin> u_email ` set (users s)
            \<and> Suc (users_id_seq s) \<notin> u_id ` set (users s)"
    let ?u = "\<lparr>u_id = Suc (users_id_seq s), u_email = '''', u_password = hashed,
                         u_created_at = now e\<rparr>"
    let ?s1 = "s\<lparr>users_id_seq := Suc (users_id_seq s), users := users s @ [?u]\<rparr>"
    have c0: "commit e 0 (insert_user e (Some '''') hashed) s = (Inr ?u, ?s1)"
      using a by (simp add: commit_def insert_user_def Let_def)
    obtain r s2 where c1: "commit e 1 (insert_token e (Some (u_id ?u))) ?s1 = (r, s2)"
      by fastforce
    have "users s2 = users ?s1"
      using c1 by (auto simp: commit_def insert_token_def Let_def split: if_splits)
    then show "users (snd (UserView_post e req s)) = users s @ [?u]"
      using assms(1) v a c0 c1 by (cases r) (simp_all add: UserView_post_def)
  qed
qed

theorem empty_email_accepted_witness:
  "validate (JObj [(''email'', JStr ''''), (''password'', JStr ''abcde'')]) CreateUser
     = Inr [(''email'', ''''), (''password'', ''abcde'')]
   \<and> users (snd (UserView_post env0
        \<lparr>headers = [], match_info = [],
         json_body = Some (JObj [(''email'', JStr ''''), (''password'', JStr ''abcde'')])\<rparr>
        store1))
     = users store1
       @ [\<lparr>u_id = 3, u_email = '''', u_password = ''bcrypt:abcde'', u_created_at = clock0\<rparr>]"
  using empty_email_accepted [of
      "\<lparr>headers = [], match_info = [],
         json_body = Some (JObj [(''email'', JStr ''''), (''password'', JStr ''abcde'')])\<rparr>"
      "[(''email'', JStr ''''), (''password'', JStr ''abcde'')]" "''abcde''" env0
      "''bcrypt:abcde''" store1]
  by (simp add: ex_defs)

text \<open>
  The claim as it stands fails: in the empty database the registration with the empty
  email succeeds and leaves a user row whose email is empty.
\<close>

theorem empty_email_user_created_counterexample:
  "UserView_post env0
     \<lparr>headers = [], match_info = [],
      json_body = Some (JObj [(''email'', JStr ''''), (''password'', JStr ''abcde'')])\<rparr> store0
   = (Inr (UserCreated 1 (uuid4 env0)),
      \<lparr>users = [\<lparr>u_id = 1, u_email = '''', u_password = ''bcrypt:abcde'',
                  u_created_at = clock0\<rparr>],
       advertisements = [],
       tokens = [\<lparr>t_id = uuid4 env0, t_created_at = clock0, t_user_id = Some 1\<rparr>],
       users_id_seq = 1, advertisements_id_seq = 0\<rparr>)"
  by (simp add: UserView_post_def ex_defs run_defs)

section \<open>Ownership\<close>

lemma foreign_token_check:
  assumes "header req ''token'' = Inr t"
    and "find (\<lambda>r. t_id r = t) (tokens s) = Some token_owner"
    and "t_user_id token_owner \<noteq> a_user_id adv"
  shows "check_token_in_headers adv req s = Inl (HTTPUnauthorized OwnerOnly)"
  using assms by (auto simp: check_token_in_headers_def get_item_by_id_def)

text \<open>
  C2, as the source has it. Take a request for an existing advertisement whose token, the
  value the handler reads from the \<^verbatim>\<open>token\<close> header, resolves to a user other than
  the advertisement's. A delete request fails with
  \<^verbatim>\<open>HTTPUnauthorized\<close>. So does an update request whose body is well-formed JSON, has
  no \<^verbatim>\<open>user_id\<close> and passes validation; an update request whose body fails one of
  these earlier checks fails with the error of that check. In every case the handler
  fails and leaves the database, and so every field of the advertisement, as it was.
\<close>

theorem foreign_token_unauthorized:
  assumes "map_of (match_info req) ''adv_id'' = Some item_id"
    and "find (\<lambda>r. a_id r = item_id) (advertisements s) = Some adv"
    and "header req ''token'' = Inr t"
    and "find (\<lambda>r. t_id r = t) (tokens s) = Some token_owner"
    and "t_user_id token_owner \<noteq> a_user_id adv"
  shows "AdvertisementView_delete e req s = (Inl (HTTPUnauthorized OwnerOnly), s)
       \<and> (\<forall>j v. json_body req = Some j \<and> py_in ''user_id'' j = Inr False
                \<and> validate j UpdateAdvertisement = Inr v \<longrightarrow>
              AdvertisementView_patch e req s = (Inl (HTTPUnauthorized OwnerOnly), s))
       \<and> (\<exists>x. AdvertisementView_patch e req s = (Inl x, s))"
proof -
  note chk = foreign_token_check [OF assms(3,4,5)]
  have d: "AdvertisementView_delete e req s = (Inl (HTTPUnauthorized OwnerOnly), s)"
    using assms(1,2) chk
    by (simp add: AdvertisementView_delete_def path_int_def get_item_by_id_def)
  have p: "\<And>j v. json_body req = Some j \<Longrightarrow> py_in ''user_id'' j = Inr False \<Longrightarrow>
        validate j UpdateAdvertisement = Inr v \<Longrightarrow>
        AdvertisementView_patch e req s = (Inl (HTTPUnauthorized OwnerOnly), s)"
    using assms(1,2) chk
    by (simp add: AdvertisementView_patch_def path_int_def get_item_by_id_def)
  have f: "\<exists>x. AdvertisementView_patch e req s = (Inl x, s)"
    using assms(1,2) chk
    by (simp add: AdvertisementView_patch_def path_int_def get_item_by_id_def
        split: option.splits sum.splits)
  from d p f show ?thesis by blast
qed

text \<open>The theorem at the second user's token and the first user's advertisement.\<close>

theorem foreign_token_unauthorized_witness:
  "AdvertisementView_delete env0
     \<lparr>headers = [(''token'', tokB)], match_info = [(''adv_id'', 1)],
      json_body = Some (JObj [(''title'', JStr ''Updated title!!'')])\<rparr> store1
     = (Inl (HTTPUnauthorized OwnerOnly), store1)
   \<and> AdvertisementView_patch env0
     \<lparr>headers = [(''token'', tokB)], match_info = [(''adv_id'', 1)],
      json_body = Some (JObj [(''title'', JStr ''Updated title!!'')])\<rparr> store1
     = (Inl (HTTPUnauthorized OwnerOnly), store1)"
  using foreign_token_unauthorized [of
      "\<lparr>headers = [(''token'', tokB)], match_info = [(''adv_id'', 1)],
        json_body = Some (JObj [(''title'', JStr ''Updated title!!'')])\<rparr>"
      1 store1 ad1 tokB "\<lparr>t_id = tokB, t_created_at = clock0, t_user_id = Some 2\<rparr>" env0]
  by (simp add: ex_defs run_defs)

text \<open>
  The claim as it stands fails: the second user's token on the first user's
  advertisement, with a title that is too short, is answered with \<^verbatim>\<open>HTTPBadRequest\<close>.
\<close>

theorem foreign_token_bad_request_counterexample:
  "find (\<lambda>r. a_id r = 1) (advertisements store1) = Some ad1
   \<and> find (\<lambda>r. t_id r = tokB) (tokens store1)
       = Some \<lparr>t_id = tokB, t_created_at = clock0, t_user_id = Some 2\<rparr>
   \<and> a_user_id ad1 = Some 1
   \<and> AdvertisementView_patch env0
       \<lparr>headers = [(''token'', tokB)], match_info = [(''adv_id'', 1)],
        json_body = Some (JObj [(''title'', JStr ''short'')])\<rparr> store1
     = (Inl (HTTPBadRequest (TooShort ''title'' 8)), store1)"
  by (simp add: AdvertisementView_patch_def ex_defs run_defs)

section \<open>The owner vanishes before the insert\<close>

text \<open>
  C3 at a concrete request. The second user creates an advertisement with a valid body
  and a valid token, and another session deletes that user between the token lookup and
  the insert. The insert raises \<^verbatim>\<open>IntegrityError\<close>; the \<^verbatim>\<open>except\<close> clause then reads
  \<^verbatim>\<open>input_data["user_id"]\<close>, which the body does not have, and the handler ends with
  a \<^verbatim>\<open>KeyError\<close>, a generic server error. Only a body that carries a \<^verbatim>\<open>user_id\<close> of
  its own gets the \<^verbatim>\<open>HTTPBadRequest\<close> the clause is written for.
\<close>

theorem adv_post_vanished_owner_key_error:
  "fst (AdvertisementView_post (env0\<lparr>interleaved := user_deleted 2\<rparr>)
     \<lparr>headers = [(''token'', tokB)], match_info = [],
      json_body = Some (JObj [(''title'', JStr ''Long enough title''),
                              (''description'', JStr ''short'')])\<rparr> store1)
     = Inl (KeyError ''user_id'')
   \<and> http_status (KeyError ''user_id'') = 500
   \<and> fst (AdvertisementView_post (env0\<lparr>interleaved := user_deleted 2\<rparr>)
     \<lparr>headers = [(''token'', tokB)], match_info = [],
      json_body = Some (JObj [(''title'', JStr ''Long enough title''),
                              (''description'', JStr ''short''), (''user_id'', JInt 2)])\<rparr> store1)
     = Inl (HTTPBadRequest (UserNotExist (JInt 2)))"
  by (simp add: AdvertisementView_post_def ex_defs run_defs)

section \<open>Requests without a token header\<close>

lemma istr_token: "istr ''token'' = ''token''"
  by (simp add: istr_def lower_char_def)

lemma no_token_header:
  assumes "''token'' \<notin> set (map (\<lambda>(name, v). istr name) (headers req))"
  shows "header req ''token'' = Inl (KeyError ''token'')"
proof -
  have "map_of (map (\<lambda>(name, v). (istr name, v)) (headers req)) ''token'' = None"
    using assms by (force simp: map_of_eq_None_iff)
  then show ?thesis by (simp add: header_def istr_token)
qed

lemma no_token_check:
  "''token'' \<notin> set (map (\<lambda>(name, v). istr name) (headers req)) \<Longrightarrow>
   check_token_in_headers adv req s = Inl (KeyError ''token'')"
  by (simp add: check_token_in_headers_def no_token_header)

lemma validate_fields_Inl:
  "validate_fields fs d = Inl x \<Longrightarrow> \<exists>m. x = HTTPBadRequest m"
proof (induction fs)
  case Nil
  then show ?case by simp
next
  case (Cons f fs)
  then show ?case
    by (auto split: sum.splits prod.splits field_result.splits option.splits
        dest: validate_field_Inl)
qed

lemma validate_Inl:
  "validate j vm = Inl x \<Longrightarrow> x = TypeError \<or> (\<exists>m. x = HTTPBadRequest m)"
  by (auto simp: validate_def split: json.splits sum.splits prod.splits if_splits
      dest: validate_fields_Inl)

lemma py_in_Inl: "py_in k j = Inl x \<Longrightarrow> x = TypeError"
  by (cases j) auto

text \<open>
  C10, as the source has it. A create, update or delete request for an advertisement
  that has no header named \<^verbatim>\<open>token\<close>, in any case of the letters, never succeeds, is
  never answered with \<^verbatim>\<open>HTTPUnauthorized\<close>, and leaves the database as it was: no row
  is created, changed or deleted. The header is read after the checks of the body
  (create, update) and after the lookup of the advertisement (update, delete): a request
  that passes them ends at the header read with a \<^verbatim>\<open>KeyError\<close>, a generic server
  error.
\<close>

theorem missing_token_header:
  assumes "''token'' \<notin> set (map (\<lambda>(name, v). istr name) (headers req))"
  shows "(\<exists>x. AdvertisementView_post e req s = (Inl x, s) \<and> (\<forall>m. x \<noteq> HTTPUnauthorized m))
       \<and> (\<exists>x. AdvertisementView_patch e req s = (Inl x, s) \<and> (\<forall>m. x \<noteq> HTTPUnauthorized m))
       \<and> (\<exists>x. AdvertisementView_delete e req s = (Inl x, s) \<and> (\<forall>m. x \<noteq> HTTPUnauthorized m))
       \<and> (\<forall>j v. json_body req = Some j \<and> validate j CreateAdvertisement = Inr v \<longrightarrow>
              AdvertisementView_post e req s = (Inl (KeyError ''token''), s))
       \<and> (\<forall>j v item_id adv. json_body req = Some j \<and> py_in ''user_id'' j = Inr False
              \<and> validate j UpdateAdvertisement = Inr v
              \<and> map_of (match_info req) ''adv_id'' = Some item_id
              \<and> find (\<lambda>r. a_id r = item_id) (advertisements s) = Some adv \<longrightarrow>
              AdvertisementView_patch e req s = (Inl (KeyError ''token''), s))
       \<and> (\<forall>item_id adv. map_of (match_info req) ''adv_id'' = Some item_id
              \<and> find (\<lambda>r. a_id r = item_id) (advertisements s) = Some adv \<longrightarrow>
              AdvertisementView_delete e req s = (Inl (KeyError ''token''), s))"
proof (intro conjI allI impI)
  show "\<exists>x. AdvertisementView_post e req s = (Inl x, s) \<and> (\<forall>m. x \<noteq> HTTPUnauthorized m)"
    using no_token_header [OF assms]
    by (auto simp: AdvertisementView_post_def split: option.splits sum.splits
        dest: validate_Inl)
  show "\<exists>x. AdvertisementView_patch e req s = (Inl x, s) \<and> (\<forall>m. x \<noteq> HTTPUnauthorized m)"
    using no_token_check [OF assms]
    by (auto simp: AdvertisementView_patch_def path_int_def get_item_by_id_def
        split: option.splits sum.splits dest: validate_Inl py_in_Inl)
  show "\<exists>x. AdvertisementView_delete e req s = (Inl x, s) \<and> (\<forall>m. x \<noteq> HTTPUnauthorized m)"
    using no_token_check [OF assms]
    by (auto simp: AdvertisementView_delete_def path_int_def get_item_by_id_def
        split: option.splits sum.splits)
next
  fix j v
  assume "json_body req = Some j \<and> validate j CreateAdvertisement = Inr v"
  then show "AdvertisementView_post e req s = (Inl (KeyError ''token''), s)"
    using no_token_header [OF assms] by (simp add: AdvertisementView_post_def)
next
  fix j v item_id adv
  assume "json_body req = Some j \<and> py_in ''user_id'' j = Inr False
              \<and> validate j UpdateAdvertisement = Inr v
              \<and> map_of (match_info req) ''adv_id'' = Some item_id
              \<and> find (\<lambda>r. a_id r = item_id) (advertisements s) = Some adv"
  then show "AdvertisementView_patch e req s = (Inl (KeyError ''token''), s)"
    using no_token_check [OF assms]
    by (simp add: AdvertisementView_patch_def path_int_def get_item_by_id_def)
next
  fix item_id adv
  assume "map_of (match_info req) ''adv_id'' = Some item_id
              \<and> find (\<lambda>r. a_id r = item_id) (advertisements s) = Some adv"
  then show "AdvertisementView_delete e req s = (Inl (KeyError ''token''), s)"
    using no_token_check [OF assms]
    by (simp add: AdvertisementView_delete_def path_int_def get_item_by_id_def)
qed

text \<open>
  The theorem at a request with a valid body for the existing advertisement 1 and no
  header but \<^verbatim>\<open>Accept\<close>, sent to each of the three handlers.
\<close>

theorem missing_token_header_witness:
  "(\<exists>x. AdvertisementView_post env0
          \<lparr>headers = [(''Accept'', ''*/*'')], match_info = [(''adv_id'', 1)],
           json_body = Some (JObj [(''title'', JStr ''Updated title!!''),
                                   (''description'', JStr ''A fine bicycle'')])\<rparr> store1
        = (Inl x, store1) \<and> (\<forall>m. x \<noteq> HTTPUnauthorized m))
   \<and> AdvertisementView_post env0
          \<lparr>headers = [(''Accept'', ''*/*'')], match_info = [(''adv_id'', 1)],
           json_body = Some (JObj [(''title'', JStr ''Updated title!!''),
                                   (''description'', JStr ''A fine bicycle'')])\<rparr> store1
        = (Inl (KeyError ''token''), store1)
   \<and> AdvertisementView_patch env0
          \<lparr>headers = [(''Accept'', ''*/*'')], match_info = [(''adv_id'', 1)],
           json_body = Some (JObj [(''title'', JStr ''Updated title!!''),
                                   (''description'', JStr ''A fine bicycle'')])\<rparr> store1
        = (Inl (KeyError ''token''), store1)
   \<and> AdvertisementView_delete env0
          \<lparr>headers = [(''Accept'', ''*/*'')], match_info = [(''adv_id'', 1)],
           json_body = Some (JObj [(''title'', JStr ''Updated title!!''),
                                   (''description'', JStr ''A fine bicycle'')])\<rparr> store1
        = (Inl (KeyError ''token''), store1)"
  using missing_token_header [of
      "\<lparr>headers = [(''Accept'', ''*/*'')], match_info = [(''adv_id'', 1)],
        json_body = Some (JObj [(''title'', JStr ''Updated title!!''),
                                (''description'', JStr ''A fine bicycle'')])\<rparr>" env0 store1]
  by (simp add: ex_defs run_defs)

text \<open>
  The claim as it stands fails: without a token header, the delete of an advertisement
  that does not exist is answered with \<^verbatim>\<open>HTTPNotFound\<close>, and a creation with a short
  title with \<^verbatim>\<open>HTTPBadRequest\<close>.
\<close>

theorem missing_token_structured_error_counterexample:
  "AdvertisementView_delete env0
     \<lparr>headers = [], match_info = [(''adv_id'', 1)], json_body = None\<rparr> store0
     = (Inl (HTTPNotFound ItemNotExist), store0)
   \<and> AdvertisementView_post env0
     \<lparr>headers = [], match_info = [],
      json_body = Some (JObj [(''title'', JStr ''short''),
                              (''description'', JStr ''A fine bicycle'')])\<rparr>
     store0
     = (Inl (HTTPBadRequest (TooShort ''title'' 8)), store0)"
  by (simp add: AdvertisementView_delete_def AdvertisementView_post_def ex_defs run_defs)

section \<open>Partial update\<close>

lemma validate_field_optional:
  assumes "\<not> f_required f" "f_min_len f = Some n" "validate_field f raw = Inr r"
  shows "r = FieldError \<or> (raw = None \<and> r = FieldValue None)
       \<or> (\<exists>x v. raw = Some x \<and> str_validator x = Some v \<and> r = FieldValue (Some v))"
  using assms
  by (auto simp: validate_field_def split: option.splits if_splits sum.splits)

lemma validate_update_items:
  assumes "validate (JObj d) UpdateAdvertisement = Inr v"
  shows "v = (case map_of d ''title'' of None \<Rightarrow> []
              | Some x \<Rightarrow> [(''title'', the (str_validator x))])
           @ (case map_of d ''description'' of None \<Rightarrow> []
              | Some x \<Rightarrow> [(''description'', the (str_validator x))])
       \<and> (\<forall>x. map_of d ''title'' = Some x \<longrightarrow> str_validator x \<noteq> None)
       \<and> (\<forall>x. map_of d ''description'' = Some x \<longrightarrow> str_validator x \<noteq> None)"
proof -
  let ?ft = "\<lparr>f_name = ''title'', f_required = False, f_min_len = Some 8\<rparr>"
  let ?fd = "\<lparr>f_name = ''description'', f_required = False, f_min_len = Some 5\<rparr>"
  obtain rt rd where rt: "validate_field ?ft (map_of d ''title'') = Inr rt"
    and rd: "validate_field ?fd (map_of d ''description'') = Inr rd"
    using assms by (auto simp: validate_def split: sum.splits)
  have t: "rt = FieldError \<or> (map_of d ''title'' = None \<and> rt = FieldValue None)
       \<or> (\<exists>x v. map_of d ''title'' = Some x \<and> str_validator x = Some v
              \<and> rt = FieldValue (Some v))"
    using validate_field_optional [OF _ _ rt] by simp
  have d: "rd = FieldError \<or> (map_of d ''description'' = None \<and> rd = FieldValue None)
       \<or> (\<exists>x v. map_of d ''description'' = Some x \<and> str_validator x = Some v
              \<and> rd = FieldValue (Some v))"
    using validate_field_optional [OF _ _ rd] by simp
  show ?thesis
    using assms rt rd t d
    by (auto simp: validate_def split: if_splits)
qed

lemma setattr_frame:
  "a_id (setattr adv item) = a_id adv \<and> a_user_id (setattr adv item) = a_user_id adv
   \<and> a_created_at (setattr adv item) = a_created_at adv"
  by (simp add: setattr_def)

lemma foldl_setattr_frame:
  "a_id (foldl setattr adv v) = a_id adv \<and> a_user_id (foldl setattr adv v) = a_user_id adv
   \<and> a_created_at (foldl setattr adv v) = a_created_at adv"
  by (induction v arbitrary: adv) (simp_all add: setattr_frame)

text \<open>
  C8. When an update of the advertisement with the key \<open>item_id\<close> succeeds, every row
  with that key becomes one row \<open>adv'\<close> and every other row of the database is as it
  was. A field that the body does not have keeps its value in \<open>adv'\<close>; a field the body
  has takes the string validated from the body's value; the key, the owner and
  \<^verbatim>\<open>created_at\<close> keep their values.
\<close>

theorem patch_partial_update:
  assumes "AdvertisementView_patch e req s = (Inr r, s')"
    and "json_body req = Some (JObj d)"
    and "map_of (match_info req) ''adv_id'' = Some item_id"
    and "find (\<lambda>a. a_id a = item_id) (advertisements s) = Some adv"
  shows "\<exists>adv'.
           advertisements s' = map (\<lambda>a. if a_id a = item_id then adv' else a) (advertisements s)
         \<and> (map_of d ''title'' = None \<longrightarrow> a_title adv' = a_title adv)
         \<and> (map_of d ''description'' = None \<longrightarrow> a_description adv' = a_description adv)
         \<and> (\<forall>x. map_of d ''title'' = Some x \<longrightarrow> str_validator x = Some (a_title adv'))
         \<and> (\<forall>x. map_of d ''description'' = Some x \<longrightarrow>
                str_validator x = Some (a_description adv'))
         \<and> a_id adv' = a_id adv \<and> a_user_id adv' = a_user_id adv
         \<and> a_created_at adv' = a_created_at adv
         \<and> users s' = users s \<and> tokens s' = tokens s"
proof -
  have id: "a_id adv = item_id" using assms(4) by (auto simp: find_Some_iff)
  obtain v where v: "validate (JObj d) UpdateAdvertisement = Inr v"
    and s': "s' = s\<lparr>advertisements :=
                 map (\<lambda>a. if a_id a = item_id then foldl setattr adv v else a)
                   (advertisements s)\<rparr>"
    using assms id
    by (auto simp: AdvertisementView_patch_def path_int_def get_item_by_id_def commit_def
        update_advertisement_def foldl_setattr_frame
        split: sum.splits if_splits prod.splits)
  let ?adv' = "foldl setattr adv v"
  note items = validate_update_items [OF v]
  have fields: "(map_of d ''title'' = None \<longrightarrow> a_title ?adv' = a_title adv)
         \<and> (map_of d ''description'' = None \<longrightarrow> a_description ?adv' = a_description adv)
         \<and> (\<forall>x. map_of d ''title'' = Some x \<longrightarrow> str_validator x = Some (a_title ?adv'))
         \<and> (\<forall>x. map_of d ''description'' = Some x \<longrightarrow>
                str_validator x = Some (a_description ?adv'))"
    using items by (auto simp: setattr_def split: option.splits)
  show ?thesis
    using s' fields foldl_setattr_frame [of adv v] by (intro exI [of _ ?adv']) simp
qed

text \<open>
  The theorem at the owner's update of the title of advertisement 1: the description
  stays \<^verbatim>\<open>short\<close>.
\<close>

theorem patch_partial_update_witness:
  "AdvertisementView_patch env0
      \<lparr>headers = [(''token'', tokA)], match_info = [(''adv_id'', 1)],
       json_body = Some (JObj [(''title'', JStr ''Updated title!!'')])\<rparr> store1
    = (Inr (AdvUpdated 1 (JObj [(''title'', JStr ''Updated title!!'')])),
       store1\<lparr>advertisements := [ad1\<lparr>a_title := ''Updated title!!''\<rparr>]\<rparr>)
   \<and> (\<exists>adv'.
     advertisements
       (store1\<lparr>advertisements := [ad1\<lparr>a_title := ''Updated title!!''\<rparr>]\<rparr>)
       = map (\<lambda>a. if a_id a = 1 then adv' else a) (advertisements store1)
     \<and> a_description adv' = ''short''
     \<and> a_title adv' = ''Updated title!!''
     \<and> a_id adv' = a_id ad1 \<and> a_user_id adv' = a_user_id ad1
     \<and> a_created_at adv' = a_created_at ad1)"
proof -
  have run: "AdvertisementView_patch env0
      \<lparr>headers = [(''token'', tokA)], match_info = [(''adv_id'', 1)],
       json_body = Some (JObj [(''title'', JStr ''Updated title!!'')])\<rparr> store1
    = (Inr (AdvUpdated 1 (JObj [(''title'', JStr ''Updated title!!'')])),
       store1\<lparr>advertisements := [ad1\<lparr>a_title := ''Updated title!!''\<rparr>]\<rparr>)"
    by (simp add: AdvertisementView_patch_def ex_defs run_defs)
  show ?thesis
    using run patch_partial_update [OF run, of "[(''title'', JStr ''Updated title!!'')]" 1 ad1]
    by (simp add: ex_defs)
qed

end
